theory Spec2Isabelle
  imports Main "HOL-Library.Word"
begin

section \<open>Kube-Shield operator: the pod reconciler and the ShieldPolicy predicates\<close>

text \<open>
  A shallow embedding of \<^verbatim>\<open>pkg/apis/shield/v1alpha1\<close> (the ShieldPolicy type and its
  predicates) and of \<^verbatim>\<open>pkg/controller/pod_controller.go\<close> (the pod reconciler).
  Go strings are byte sequences and are modelled as \<^typ>\<open>string\<close>; \<^verbatim>\<open>int64\<close> is
  \<^typ>\<open>64 word\<close>, whose \<open>+\<close> wraps as Go's does.
\<close>

subsection \<open>Data model\<close>

text \<open>
  A clock reading is represented by the text that \<^verbatim>\<open>Format(time.RFC3339)\<close> gives for it,
  which is the only thing the reconciler uses of it.
\<close>

type_synonym timestamp = string

record ShieldPolicySpec =
  BlockPrivileged :: bool
  AllowedRegistries :: "string list"
  EnforcementMode :: string
  TargetNamespaces :: "string list"

text \<open>\<^verbatim>\<open>metav1.Condition\<close>, as far as the controllers fill it in.\<close>

record Condition =
  cond_Type :: string
  cond_Status :: string
  cond_Reason :: string
  cond_Message :: string
  cond_LastTransitionTime :: timestamp

record ShieldPolicyStatus =
  Phase :: string
  LastEnforcementTime :: "timestamp option"
  ViolationsCount :: "64 word"
  TerminationsCount :: "64 word"
  Conditions :: "Condition list"
  ObservedGeneration :: "64 word"
  Message :: string

record ShieldPolicy =
  Name :: string
  Spec :: ShieldPolicySpec
  Status :: ShieldPolicyStatus

text \<open>The parts of \<^verbatim>\<open>corev1.Pod\<close> that the reconciler reads. A nil pointer is \<open>None\<close>.\<close>

record SecurityContext =
  sc_Privileged :: "bool option"
  sc_RunAsUser :: "64 word option"

record Container =
  container_Name :: string
  container_Image :: string
  container_SecurityContext :: "SecurityContext option"

record Pod =
  pod_Name :: string
  pod_Namespace :: string
  pod_DeletionTimestamp :: "timestamp option"
  pod_Phase :: string
  pod_HostNetwork :: bool
  pod_NodeName :: string
  pod_Containers :: "Container list"
  pod_InitContainers :: "Container list"

record SecurityEvent =
  Timestamp :: string
  EventType :: string
  Severity :: string
  PodName :: string
  Namespace :: string
  Container :: string
  Image :: string
  Reason :: string
  Action :: string
  PolicyName :: string
  NodeName :: string
  Description :: string

subsection \<open>Policy predicates\<close>

definition IsEnforcing :: "ShieldPolicy \<Rightarrow> bool" where
  "IsEnforcing s \<longleftrightarrow> EnforcementMode (Spec s) = '''' \<or> EnforcementMode (Spec s) = ''Enforce''"

definition IsAuditing :: "ShieldPolicy \<Rightarrow> bool" where
  "IsAuditing s \<longleftrightarrow> EnforcementMode (Spec s) = ''Audit''"

definition IsDisabled :: "ShieldPolicy \<Rightarrow> bool" where
  "IsDisabled s \<longleftrightarrow> EnforcementMode (Spec s) = ''Disabled''"

definition ShouldBlockPrivileged :: "ShieldPolicy \<Rightarrow> bool" where
  "ShouldBlockPrivileged s \<longleftrightarrow> BlockPrivileged (Spec s) \<and> \<not> IsDisabled s"

text \<open>The \<^verbatim>\<open>for ... range\<close> loop of \<^verbatim>\<open>IsRegistryAllowed\<close>, returning at the first match.\<close>

fun registry_loop :: "string list \<Rightarrow> string \<Rightarrow> bool" where
  "registry_loop [] registry = False"
| "registry_loop (allowed # rest) registry =
     (if allowed = registry \<or> allowed = ''*'' then True else registry_loop rest registry)"

definition IsRegistryAllowed :: "ShieldPolicy \<Rightarrow> string \<Rightarrow> bool" where
  "IsRegistryAllowed s registry =
     (if length (AllowedRegistries (Spec s)) = 0 then True
      else registry_loop (AllowedRegistries (Spec s)) registry)"

text \<open>The loop of \<^verbatim>\<open>ShouldApplyToNamespace\<close>.\<close>

fun namespace_loop :: "string list \<Rightarrow> string \<Rightarrow> bool" where
  "namespace_loop [] namespace = False"
| "namespace_loop (ns # rest) namespace =
     (if ns = namespace then True else namespace_loop rest namespace)"

definition ShouldApplyToNamespace :: "ShieldPolicy \<Rightarrow> string \<Rightarrow> bool" where
  "ShouldApplyToNamespace s namespace =
     (if namespace = ''kube-system'' then False
      else if length (TargetNamespaces (Spec s)) = 0 then True
      else namespace_loop (TargetNamespaces (Spec s)) namespace)"

subsection \<open>Registry extraction\<close>

text \<open>
  \<^verbatim>\<open>strings.Contains\<close> and \<^verbatim>\<open>strings.Split\<close> for a separator of one byte, which is how
  \<^verbatim>\<open>extractRegistry\<close> calls them. \<open>Split\<close> never returns the empty list, so \<^verbatim>\<open>parts[0]\<close>
  is always in range.
\<close>

definition Contains :: "string \<Rightarrow> char \<Rightarrow> bool" where
  "Contains s c \<longleftrightarrow> c \<in> set s"

fun Split :: "string \<Rightarrow> char \<Rightarrow> string list" where
  "Split [] sep = [[]]"
| "Split (c # cs) sep =
     (if c = sep then [] # Split cs sep
      else (case Split cs sep of
              [] \<Rightarrow> [[c]]
            | part # parts \<Rightarrow> (c # part) # parts))"

definition extractRegistry :: "string \<Rightarrow> string" where
  "extractRegistry img =
     (if \<not> Contains img CHR ''/'' then ''docker.io''
      else (let parts = Split img CHR ''/'';
                firstPart = parts ! 0
            in if Contains firstPart CHR ''.'' \<or> Contains firstPart CHR '':'' then firstPart
               else ''docker.io''))"

text \<open>
  The registry rule in the words of the specification: the default public registry when
  the reference has no slash; otherwise the substring before the first slash when that
  contains a dot or a colon, and the default public registry when it does not.
\<close>

definition registry_by_spec :: "string \<Rightarrow> string" where
  "registry_by_spec img =
     (if CHR ''/'' \<notin> set img then ''docker.io''
      else (let prefix = takeWhile (\<lambda>c. c \<noteq> CHR ''/'') img
            in if CHR ''.'' \<in> set prefix \<or> CHR '':'' \<in> set prefix then prefix
               else ''docker.io''))"

subsection \<open>Violation detection\<close>

definition getActionString :: "ShieldPolicy \<Rightarrow> string" where
  "getActionString policy = (if IsEnforcing policy then ''TERMINATED'' else ''AUDIT'')"

text \<open>\<^verbatim>\<open>'%s'\<close> in a format string: the argument between two apostrophes.\<close>

definition quoted :: "string \<Rightarrow> string" where
  "quoted s = [CHR 0x27] @ s @ [CHR 0x27]"

definition hostNetworkEvent :: "timestamp \<Rightarrow> Pod \<Rightarrow> ShieldPolicy \<Rightarrow> SecurityEvent" where
  "hostNetworkEvent now pod policy =
     \<lparr> Timestamp = now, EventType = ''HOST_NETWORK'', Severity = ''HIGH'',
       PodName = pod_Name pod, Namespace = pod_Namespace pod,
       Container = [], Image = [],
       Reason = ''Pod using host network'', Action = ''AUDIT'',
       PolicyName = Name policy, NodeName = pod_NodeName pod,
       Description = ''Pod '' @ quoted (pod_Name pod)
         @ '' is using host network which can bypass network policies'' \<rparr>"

definition privilegedEvent ::
  "timestamp \<Rightarrow> Pod \<Rightarrow> ShieldPolicy \<Rightarrow> Container \<Rightarrow> SecurityEvent" where
  "privilegedEvent now pod policy container =
     \<lparr> Timestamp = now, EventType = ''PRIVILEGED_CONTAINER'', Severity = ''CRITICAL'',
       PodName = pod_Name pod, Namespace = pod_Namespace pod,
       Container = container_Name container, Image = container_Image container,
       Reason = ''Privileged container detected'', Action = getActionString policy,
       PolicyName = Name policy, NodeName = pod_NodeName pod,
       Description = ''Container '' @ quoted (container_Name container)
         @ '' is running in privileged mode which violates policy ''
         @ quoted (Name policy) \<rparr>"

definition registryEvent ::
  "timestamp \<Rightarrow> Pod \<Rightarrow> ShieldPolicy \<Rightarrow> Container \<Rightarrow> string \<Rightarrow> SecurityEvent" where
  "registryEvent now pod policy container registry =
     \<lparr> Timestamp = now, EventType = ''DISALLOWED_REGISTRY'', Severity = ''HIGH'',
       PodName = pod_Name pod, Namespace = pod_Namespace pod,
       Container = container_Name container, Image = container_Image container,
       Reason = ''Image from disallowed registry: '' @ registry,
       Action = getActionString policy,
       PolicyName = Name policy, NodeName = pod_NodeName pod,
       Description = ''Container '' @ quoted (container_Name container)
         @ '' uses image from registry '' @ quoted registry
         @ '' which is not in the allowed list'' \<rparr>"

definition rootUserEvent ::
  "timestamp \<Rightarrow> Pod \<Rightarrow> ShieldPolicy \<Rightarrow> Container \<Rightarrow> SecurityEvent" where
  "rootUserEvent now pod policy container =
     \<lparr> Timestamp = now, EventType = ''ROOT_USER'', Severity = ''HIGH'',
       PodName = pod_Name pod, Namespace = pod_Namespace pod,
       Container = container_Name container, Image = container_Image container,
       Reason = ''Container running as root user'', Action = ''AUDIT'',
       PolicyName = Name policy, NodeName = pod_NodeName pod,
       Description = ''Container '' @ quoted (container_Name container)
         @ '' is configured to run as root (UID 0)'' \<rparr>"

text \<open>
  \<^verbatim>\<open>SecurityContext != nil && Privileged != nil && *Privileged\<close>, and the same shape for
  \<^verbatim>\<open>RunAsUser\<close>.
\<close>

definition isPrivileged :: "Container \<Rightarrow> bool" where
  "isPrivileged container =
     (case container_SecurityContext container of
        None \<Rightarrow> False
      | Some sc \<Rightarrow> (case sc_Privileged sc of None \<Rightarrow> False | Some b \<Rightarrow> b))"

definition runsAsRoot :: "Container \<Rightarrow> bool" where
  "runsAsRoot container =
     (case container_SecurityContext container of
        None \<Rightarrow> False
      | Some sc \<Rightarrow> (case sc_RunAsUser sc of None \<Rightarrow> False | Some uid \<Rightarrow> uid = 0))"

text \<open>One iteration of the container loop of \<^verbatim>\<open>checkPodViolations\<close>.\<close>

definition checkContainer ::
  "timestamp \<Rightarrow> Pod \<Rightarrow> ShieldPolicy \<Rightarrow> Container \<Rightarrow> SecurityEvent list \<Rightarrow> SecurityEvent list"
  where
  "checkContainer now pod policy container violations =
     (let v1 = (if ShouldBlockPrivileged policy then
                  (if isPrivileged container
                   then violations @ [privilegedEvent now pod policy container]
                   else violations)
                else violations);
          v2 = (if length (AllowedRegistries (Spec policy)) > 0 then
                  (let registry = extractRegistry (container_Image container)
                   in if \<not> IsRegistryAllowed policy registry
                      then v1 @ [registryEvent now pod policy container registry]
                      else v1)
                else v1)
      in if runsAsRoot container then v2 @ [rootUserEvent now pod policy container] else v2)"

fun containers_loop ::
  "timestamp \<Rightarrow> Pod \<Rightarrow> ShieldPolicy \<Rightarrow> Container list \<Rightarrow> SecurityEvent list
   \<Rightarrow> SecurityEvent list" where
  "containers_loop now pod policy [] violations = violations"
| "containers_loop now pod policy (container # rest) violations =
     containers_loop now pod policy rest (checkContainer now pod policy container violations)"

text \<open>
  \<^verbatim>\<open>checkPodViolations\<close>. The first argument is the value of
  \<^verbatim>\<open>time.Now().UTC().Format(time.RFC3339)\<close> read at the start of the call.
\<close>

definition checkPodViolations :: "timestamp \<Rightarrow> Pod \<Rightarrow> ShieldPolicy \<Rightarrow> SecurityEvent list" where
  "checkPodViolations now pod policy =
     (let violations = (if pod_HostNetwork pod then [hostNetworkEvent now pod policy] else []);
          allContainers = pod_Containers pod @ pod_InitContainers pod
      in containers_loop now pod policy allContainers violations)"

subsection \<open>The reconciler and its collaborators\<close>

text \<open>
  Errors of the API client; \<^verbatim>\<open>errors.IsNotFound\<close> tells the first from the others.
\<close>

datatype api_error = NotFound | Conflict | Failure string

definition IsNotFound :: "api_error \<Rightarrow> bool" where
  "IsNotFound err \<longleftrightarrow> err = NotFound"

text \<open>
  The calls a reconciliation pass makes on its collaborators, in order: the API client
  (\<^verbatim>\<open>Get\<close>, \<^verbatim>\<open>List\<close>, \<^verbatim>\<open>Delete\<close> with grace period 0, \<^verbatim>\<open>Status().Update\<close>), the clock
  (\<^verbatim>\<open>time.Now\<close> in \<^verbatim>\<open>checkPodViolations\<close>, \<^verbatim>\<open>metav1.Now\<close> in \<^verbatim>\<open>updatePolicyStatus\<close>), the
  audit sink and the logger (the message of \<^verbatim>\<open>Info\<close> and \<^verbatim>\<open>Error\<close>, without the key-value
  pairs).

  \<open>SendSecurityEvent\<close> is the invocation of \<^verbatim>\<open>sendSecurityEvent\<close> on a violation. Its body
  does nothing when \<^verbatim>\<open>AuditServiceURL\<close> is empty and otherwise posts the record as JSON to
  the sink, logging a failure; it returns nothing and changes nothing the pass reads, so
  the pass is the same whatever the sink does.
\<close>

datatype call =
    ClientGet string string
  | ClientList
  | TimeNow
  | SendSecurityEvent SecurityEvent
  | LoggerInfo string
  | ClientDelete Pod
  | MetaNow
  | StatusUpdate ShieldPolicy
  | LoggerError api_error string

text \<open>
  What the collaborators answer during one pass. The clock and the status writes may
  answer differently each time: they are indexed by the number of calls made so far.
\<close>

record environment =
  get_reply :: "string \<Rightarrow> string \<Rightarrow> api_error + Pod"
  list_reply :: "api_error + ShieldPolicy list"
  delete_reply :: "Pod \<Rightarrow> api_error option"
  status_update_reply :: "nat \<Rightarrow> ShieldPolicy \<Rightarrow> api_error option"
  clock :: "nat \<Rightarrow> timestamp"

record Request =
  req_Namespace :: string
  req_Name :: string

text \<open>
  \<^verbatim>\<open>updatePolicyStatus\<close> mutates the policy it is given (the loop variable of
  \<^verbatim>\<open>Reconcile\<close>) and writes it; the model returns the mutated policy and the calls made.
\<close>

definition updatePolicyStatus ::
  "environment \<Rightarrow> ShieldPolicy \<Rightarrow> bool \<Rightarrow> call list \<Rightarrow> ShieldPolicy \<times> call list" where
  "updatePolicyStatus env policy wasTerminated t =
     (let now = clock env (length t);
          t1 = t @ [MetaNow];
          s1 = (Status policy)\<lparr>LastEnforcementTime := Some now\<rparr>;
          s2 = s1\<lparr>ViolationsCount := ViolationsCount s1 + 1\<rparr>;
          s3 = s2\<lparr>Phase := ''Active''\<rparr>;
          s4 = (if wasTerminated
                then s3\<lparr>TerminationsCount := TerminationsCount s3 + 1,
                        Message := ''Last termination at '' @ now\<rparr>
                else s3);
          policy' = policy\<lparr>Status := s4\<rparr>;
          err = status_update_reply env (length t1) policy';
          t2 = t1 @ [StatusUpdate policy']
      in case err of
           Some e \<Rightarrow> (policy', t2 @ [LoggerError e ''Failed to update ShieldPolicy status''])
         | None \<Rightarrow> (policy', t2))"

text \<open>
  The loop over the violations of one policy. \<open>Some r\<close> is a \<^verbatim>\<open>return\<close> out of
  \<^verbatim>\<open>Reconcile\<close> with the error \<open>Inl e\<close> or with \<^verbatim>\<open>nil\<close> (\<open>Inr ()\<close>); \<open>None\<close> is the end
  of the loop.
\<close>

fun violations_loop ::
  "environment \<Rightarrow> Pod \<Rightarrow> ShieldPolicy \<Rightarrow> SecurityEvent list \<Rightarrow> call list
   \<Rightarrow> (api_error + unit) option \<times> call list" where
  "violations_loop env pod policy [] t = (None, t)"
| "violations_loop env pod policy (violation # rest) t =
     (let t1 = t @ [SendSecurityEvent violation]
      in if IsEnforcing policy then
           (let t2 = t1 @ [LoggerInfo ''Terminating pod due to policy violation''];
                err = delete_reply env pod;
                t3 = t2 @ [ClientDelete pod]
            in case err of
                 Some e \<Rightarrow>
                   (if \<not> IsNotFound e
                    then (Some (Inl e), t3 @ [LoggerError e ''Failed to delete violating pod''])
                    else (Some (Inr ()), snd (updatePolicyStatus env policy True t3)))
               | None \<Rightarrow> (Some (Inr ()), snd (updatePolicyStatus env policy True t3)))
         else (case updatePolicyStatus env policy False t1 of
                 (policy', t2) \<Rightarrow> violations_loop env pod policy' rest t2))"

text \<open>The loop over \<^verbatim>\<open>policies.Items\<close>.\<close>

fun policies_loop ::
  "environment \<Rightarrow> Pod \<Rightarrow> ShieldPolicy list \<Rightarrow> call list \<Rightarrow> (api_error + unit) \<times> call list"
  where
  "policies_loop env pod [] t = (Inr (), t)"
| "policies_loop env pod (policy # rest) t =
     (if \<not> ShouldApplyToNamespace policy (pod_Namespace pod) then policies_loop env pod rest t
      else if IsDisabled policy then policies_loop env pod rest t
      else (let violations = checkPodViolations (clock env (length t)) pod policy;
                t1 = t @ [TimeNow]
            in case violations_loop env pod policy violations t1 of
                 (Some r, t2) \<Rightarrow> (r, t2)
               | (None, t2) \<Rightarrow> policies_loop env pod rest t2))"

definition Reconcile :: "environment \<Rightarrow> Request \<Rightarrow> (api_error + unit) \<times> call list" where
  "Reconcile env req =
     (if req_Namespace req = ''kube-system'' then (Inr (), [])
      else (let t1 = [ClientGet (req_Namespace req) (req_Name req)]
            in case get_reply env (req_Namespace req) (req_Name req) of
                 Inl err \<Rightarrow>
                   (if IsNotFound err then (Inr (), t1)
                    else (Inl err, t1 @ [LoggerError err ''Failed to fetch Pod'']))
               | Inr pod \<Rightarrow>
                   (if pod_DeletionTimestamp pod \<noteq> None then (Inr (), t1)
                    else if pod_Phase pod = ''Succeeded'' \<or> pod_Phase pod = ''Failed''
                    then (Inr (), t1)
                    else (let t2 = t1 @ [ClientList]
                          in case list_reply env of
                               Inl err \<Rightarrow>
                                 (Inl err, t2 @ [LoggerError err ''Failed to list ShieldPolicies''])
                             | Inr policies \<Rightarrow> policies_loop env pod policies t2))))"

subsection \<open>Reading the calls of a pass\<close>

text \<open>
  Which calls are delete requests, event emissions and status writes; \<open>evaluates\<close> holds of
  the calls that belong to evaluating a policy or a violation (the clock read of a
  detection, an emission, a delete request); \<open>after_delete\<close> is what a pass did after its
  first delete request.
\<close>

fun is_delete :: "call \<Rightarrow> bool" where
  "is_delete (ClientDelete pod) = True"
| "is_delete _ = False"

fun is_send :: "call \<Rightarrow> bool" where
  "is_send (SendSecurityEvent event) = True"
| "is_send _ = False"

fun is_status_update :: "call \<Rightarrow> bool" where
  "is_status_update (StatusUpdate policy) = True"
| "is_status_update _ = False"


definition evaluates :: "call \<Rightarrow> bool" where
  "evaluates c \<longleftrightarrow> c = TimeNow \<or> is_send c \<or> is_delete c"

definition after_delete :: "call list \<Rightarrow> call list" where
  "after_delete t = drop 1 (dropWhile (\<lambda>c. \<not> is_delete c) t)"

text \<open>
  How \<^verbatim>\<open>Reconcile\<close> reads the reply to its delete request: \<^verbatim>\<open>nil\<close> and NotFound go on to
  the status update and return \<^verbatim>\<open>nil\<close>, any other error is returned.
\<close>

definition delete_outcome :: "environment \<Rightarrow> Pod \<Rightarrow> api_error + unit" where
  "delete_outcome env pod =
     (case delete_reply env pod of
        None \<Rightarrow> Inr ()
      | Some e \<Rightarrow> if IsNotFound e then Inr () else Inl e)"

text \<open>
  A pass that has issued its delete request: one delete, nothing evaluated after it.
\<close>

definition settled :: "call list \<Rightarrow> bool" where
  "settled t \<longleftrightarrow> (\<exists>t0 d u. t = t0 @ d # u \<and> is_delete d \<and> filter is_delete t0 = []
                        \<and> filter evaluates u = [])"

subsection \<open>Example clusters\<close>

text \<open>
  A policy named baseline that blocks privileged containers in every namespace, in a given
  enforcement mode; a pod on the host network with one plain container, and the same pod
  with an init container that runs as root; a cluster that holds a pod and a list of
  policies and answers every call with success, and one whose status writes all conflict.
\<close>

definition empty_status :: ShieldPolicyStatus where
  "empty_status = \<lparr> Phase = [], LastEnforcementTime = None, ViolationsCount = 0,
     TerminationsCount = 0, Conditions = [], ObservedGeneration = 0, Message = [] \<rparr>"

definition policy_with_mode :: "string \<Rightarrow> ShieldPolicy" where
  "policy_with_mode mode = \<lparr> Name = ''baseline'',
     Spec = \<lparr> BlockPrivileged = True, AllowedRegistries = [], EnforcementMode = mode,
              TargetNamespaces = [] \<rparr>,
     Status = empty_status \<rparr>"

definition nginx_container :: Container where
  "nginx_container = \<lparr> container_Name = ''web'', container_Image = ''nginx'',
     container_SecurityContext = None \<rparr>"

definition root_container :: Container where
  "root_container = \<lparr> container_Name = ''init'', container_Image = ''busybox'',
     container_SecurityContext = Some \<lparr> sc_Privileged = None, sc_RunAsUser = Some 0 \<rparr> \<rparr>"

definition host_network_pod :: Pod where
  "host_network_pod = \<lparr> pod_Name = ''web-0'', pod_Namespace = ''default'',
     pod_DeletionTimestamp = None, pod_Phase = ''Running'', pod_HostNetwork = True,
     pod_NodeName = ''node-1'', pod_Containers = [nginx_container], pod_InitContainers = [] \<rparr>"

definition root_host_network_pod :: Pod where
  "root_host_network_pod = host_network_pod\<lparr>pod_InitContainers := [root_container]\<rparr>"

definition web_request :: Request where
  "web_request = \<lparr> req_Namespace = ''default'', req_Name = ''web-0'' \<rparr>"

definition midnight :: timestamp where
  "midnight = ''2026-01-01T00:00:00Z''"

definition cluster_of :: "Pod \<Rightarrow> ShieldPolicy list \<Rightarrow> environment" where
  "cluster_of pod policies = \<lparr> get_reply = (\<lambda>ns name. Inr pod), list_reply = Inr policies,
     delete_reply = (\<lambda>p. None), status_update_reply = (\<lambda>n p. None),
     clock = (\<lambda>n. midnight) \<rparr>"

definition conflicting_cluster :: "Pod \<Rightarrow> ShieldPolicy list \<Rightarrow> environment" where
  "conflicting_cluster pod policies =
     (cluster_of pod policies)\<lparr>status_update_reply := (\<lambda>n p. Some Conflict)\<rparr>"

definition privileged_container :: Container where
  "privileged_container = \<lparr> container_Name = ''debug'', container_Image = ''evil.io/tools:latest'',
     container_SecurityContext = Some \<lparr> sc_Privileged = Some True, sc_RunAsUser = None \<rparr> \<rparr>"

definition privileged_pod :: Pod where
  "privileged_pod = host_network_pod\<lparr>pod_HostNetwork := False, pod_Containers := [privileged_container]\<rparr>"

section \<open>Properties\<close>

subsection \<open>Unfolding the model on concrete inputs\<close>

lemmas example_defs = empty_status_def policy_with_mode_def nginx_container_def root_container_def
  privileged_container_def privileged_pod_def
  host_network_pod_def root_host_network_pod_def web_request_def midnight_def cluster_of_def
  conflicting_cluster_def

lemmas model_defs = Reconcile_def ShouldApplyToNamespace_def IsDisabled_def IsEnforcing_def
  IsAuditing_def checkPodViolations_def checkContainer_def ShouldBlockPrivileged_def
  isPrivileged_def runsAsRoot_def updatePolicyStatus_def IsNotFound_def Let_def
  hostNetworkEvent_def rootUserEvent_def privilegedEvent_def registryEvent_def getActionString_def


subsection \<open>What a status update does to the calls of a pass\<close>

lemma ups_Spec: "Spec (fst (updatePolicyStatus env policy w t)) = Spec policy"
  by (simp add: updatePolicyStatus_def Let_def split: option.splits)

lemma ups_IsEnforcing: "IsEnforcing (fst (updatePolicyStatus env policy w t)) = IsEnforcing policy"
  by (simp add: IsEnforcing_def ups_Spec)

lemma ups_calls:
  "snd (updatePolicyStatus env policy w t) =
     t @ [MetaNow, StatusUpdate (fst (updatePolicyStatus env policy w t))]
       @ (case status_update_reply env (Suc (length t)) (fst (updatePolicyStatus env policy w t)) of
            None \<Rightarrow> []
          | Some e \<Rightarrow> [LoggerError e ''Failed to update ShieldPolicy status''])"
  by (simp add: updatePolicyStatus_def Let_def split: option.splits)

lemma ups_appends:
  "\<exists>u. snd (updatePolicyStatus env policy w t) = t @ u \<and> filter evaluates u = []"
  by (subst ups_calls) (simp add: evaluates_def split: option.splits)

lemma ups_deletes: "filter is_delete (snd (updatePolicyStatus env policy w t)) = filter is_delete t"
  by (subst ups_calls) (simp split: option.splits)

lemma ups_sends: "filter is_send (snd (updatePolicyStatus env policy w t)) = filter is_send t"
  by (subst ups_calls) (simp split: option.splits)

lemma ups_status_updates:
  "filter is_status_update (snd (updatePolicyStatus env policy w t)) =
     filter is_status_update t @ [StatusUpdate (fst (updatePolicyStatus env policy w t))]"
  by (subst ups_calls) (simp split: option.splits)

subsection \<open>The violations loop under a policy that does not enforce\<close>

lemma audit_loop:
  "\<not> IsEnforcing policy \<Longrightarrow>
     fst (violations_loop env pod policy vs t) = None
   \<and> filter is_send (snd (violations_loop env pod policy vs t))
       = filter is_send t @ map SendSecurityEvent vs
   \<and> length (filter is_status_update (snd (violations_loop env pod policy vs t)))
       = length (filter is_status_update t) + length vs
   \<and> filter is_delete (snd (violations_loop env pod policy vs t)) = filter is_delete t"
proof (induction vs arbitrary: policy t)
  case Nil
  show ?case by simp
next
  case (Cons v vs)
  obtain p' t' where step: "updatePolicyStatus env policy False (t @ [SendSecurityEvent v]) = (p', t')"
    by (cases "updatePolicyStatus env policy False (t @ [SendSecurityEvent v])")
  have p': "\<not> IsEnforcing p'"
    using ups_IsEnforcing [of env policy False "t @ [SendSecurityEvent v]"] step Cons.prems by simp
  have s: "filter is_send t' = filter is_send t @ [SendSecurityEvent v]"
    using ups_sends [of env policy False "t @ [SendSecurityEvent v]"] step by simp
  have u: "length (filter is_status_update t') = length (filter is_status_update t) + 1"
    using ups_status_updates [of env policy False "t @ [SendSecurityEvent v]"] step by simp
  have d: "filter is_delete t' = filter is_delete t"
    using ups_deletes [of env policy False "t @ [SendSecurityEvent v]"] step by simp
  show ?case
    using Cons.IH [OF p', of t'] Cons.prems step s u d by (simp add: Let_def)
qed


subsection \<open>What the loop writes under a policy that does not enforce\<close>




subsection \<open>Detection and the clock\<close>

lemma checkContainer_restamp:
  "checkContainer now2 pod policy c (map (\<lambda>v. v\<lparr>Timestamp := now2\<rparr>) vs)
     = map (\<lambda>v. v\<lparr>Timestamp := now2\<rparr>) (checkContainer now1 pod policy c vs)"
  by (simp add: checkContainer_def Let_def privilegedEvent_def registryEvent_def rootUserEvent_def)

lemma containers_loop_restamp:
  "containers_loop now2 pod policy cs (map (\<lambda>v. v\<lparr>Timestamp := now2\<rparr>) vs)
     = map (\<lambda>v. v\<lparr>Timestamp := now2\<rparr>) (containers_loop now1 pod policy cs vs)"
proof (induction cs arbitrary: vs)
  case Nil
  show ?case by simp
next
  case (Cons c cs)
  show ?case
    using Cons.IH [of "checkContainer now1 pod policy c vs"]
    by (simp add: checkContainer_restamp [of now2 pod policy c vs now1])
qed

lemma checkPodViolations_restamp:
  "checkPodViolations now2 pod policy
     = map (\<lambda>v. v\<lparr>Timestamp := now2\<rparr>) (checkPodViolations now1 pod policy)"
proof -
  have "containers_loop now2 pod policy cs (map (\<lambda>v. v\<lparr>Timestamp := now2\<rparr>) vs)
     = map (\<lambda>v. v\<lparr>Timestamp := now2\<rparr>) (containers_loop now1 pod policy cs vs)" for cs vs
    by (rule containers_loop_restamp)
  from this [of _ "[]"] this [of _ "[hostNetworkEvent now1 pod policy]"]
  show ?thesis
    by (simp add: checkPodViolations_def Let_def hostNetworkEvent_def)
qed

lemma checkPodViolations_Nil_iff:
  "checkPodViolations now2 pod policy = [] \<longleftrightarrow> checkPodViolations now1 pod policy = []"
  by (subst checkPodViolations_restamp [of now2 pod policy now1]) simp

subsection \<open>How the violations loop ends\<close>

lemma loop_result:
  "fst (violations_loop env pod policy vs t) =
     (if vs = [] \<or> \<not> IsEnforcing policy then None else Some (delete_outcome env pod))"
proof (cases "IsEnforcing policy")
  case False
  then show ?thesis using audit_loop [of policy env pod vs t] by simp
next
  case True
  then show ?thesis
    by (cases vs) (simp_all add: Let_def delete_outcome_def split: option.splits)
qed

lemma enforce_loop_status_updates:
  "IsEnforcing policy \<Longrightarrow>
   length (filter is_status_update (snd (violations_loop env pod policy vs t)))
     = length (filter is_status_update t)
       + (if vs = [] then 0 else if delete_outcome env pod = Inr () then 1 else 0)"
  by (cases vs) (simp_all add: Let_def delete_outcome_def ups_status_updates split: option.splits)

lemma policies_result_independent:
  "fst (policies_loop (env\<lparr>status_update_reply := f\<rparr>) pod ps t) = fst (policies_loop env pod ps t')"
proof (induction ps arbitrary: t t')
  case Nil
  show ?case by simp
next
  case (Cons policy ps)
  let ?env = "env\<lparr>status_update_reply := f\<rparr>"
  let ?vs = "checkPodViolations (clock ?env (length t)) pod policy"
  let ?vs' = "checkPodViolations (clock env (length t')) pod policy"
  have same: "fst (violations_loop ?env pod policy ?vs (t @ [TimeNow]))
      = fst (violations_loop env pod policy ?vs' (t' @ [TimeNow]))"
    using checkPodViolations_Nil_iff [of "clock env (length t)" pod policy "clock env (length t')"]
    by (simp add: loop_result delete_outcome_def)
  obtain r1 t1 where run1: "violations_loop ?env pod policy ?vs (t @ [TimeNow]) = (r1, t1)"
    by (cases "violations_loop ?env pod policy ?vs (t @ [TimeNow])")
  obtain r2 t2 where run2: "violations_loop env pod policy ?vs' (t' @ [TimeNow]) = (r2, t2)"
    by (cases "violations_loop env pod policy ?vs' (t' @ [TimeNow])")
  from same run1 run2 have r: "r1 = r2" by simp
  show ?case
  proof (cases r2)
    case None
    with r run1 run2 Cons.IH [of t1 t2] Cons.IH [of t t'] show ?thesis
      by (simp add: Let_def)
  next
    case (Some res)
    with r run1 run2 Cons.IH [of t t'] show ?thesis
      by (simp add: Let_def)
  qed
qed


subsection \<open>One delete request, and nothing evaluated after it\<close>

lemma ups_settled:
  assumes "filter is_delete t0 = []" "is_delete d" "filter evaluates u = []"
  shows "settled (snd (updatePolicyStatus env policy w (t0 @ d # u)))"
proof -
  obtain x where x: "snd (updatePolicyStatus env policy w (t0 @ d # u)) = (t0 @ d # u) @ x"
      and ev: "filter evaluates x = []"
    using ups_appends [of env policy w "t0 @ d # u"] by blast
  have "snd (updatePolicyStatus env policy w (t0 @ d # u)) = t0 @ d # (u @ x)"
    using x by simp
  moreover have "filter evaluates (u @ x) = []"
    using assms(3) ev by simp
  ultimately show ?thesis
    unfolding settled_def using assms(1,2) by blast
qed

lemma violations_loop_deletes:
  "filter is_delete t = [] \<Longrightarrow>
     (fst (violations_loop env pod policy vs t) = None
        \<and> filter is_delete (snd (violations_loop env pod policy vs t)) = [])
   \<or> (fst (violations_loop env pod policy vs t) \<noteq> None
        \<and> settled (snd (violations_loop env pod policy vs t)))"
proof (cases "IsEnforcing policy")
  case False
  assume "filter is_delete t = []"
  with False show ?thesis using audit_loop [of policy env pod vs t] by simp
next
  case True
  assume nd: "filter is_delete t = []"
  show ?thesis
  proof (cases vs)
    case Nil
    with nd show ?thesis by simp
  next
    case (Cons v rest)
    let ?t0 = "t @ [SendSecurityEvent v, LoggerInfo ''Terminating pod due to policy violation'']"
    have t0: "filter is_delete ?t0 = []" using nd by simp
    have upd: "settled (snd (updatePolicyStatus env policy True (?t0 @ ClientDelete pod # [])))"
      by (rule ups_settled [OF t0]) simp_all
    have err: "settled (?t0 @ ClientDelete pod # [LoggerError e ''Failed to delete violating pod''])" for e
      unfolding settled_def using t0
      by (intro exI [of _ ?t0] exI [of _ "ClientDelete pod"] exI [of _ "[LoggerError e ''Failed to delete violating pod'']"])
         (simp add: evaluates_def)
    show ?thesis
      using True Cons upd err by (simp add: Let_def split: option.splits)
  qed
qed

lemma policies_loop_deletes:
  "filter is_delete t = [] \<Longrightarrow>
     filter is_delete (snd (policies_loop env pod ps t)) = []
   \<or> settled (snd (policies_loop env pod ps t))"
proof (induction ps arbitrary: t)
  case Nil
  then show ?case by simp
next
  case (Cons policy ps)
  let ?vs = "checkPodViolations (clock env (length t)) pod policy"
  obtain r t' where run: "violations_loop env pod policy ?vs (t @ [TimeNow]) = (r, t')"
    by (cases "violations_loop env pod policy ?vs (t @ [TimeNow])")
  have start: "filter is_delete (t @ [TimeNow]) = []" using Cons.prems by simp
  from violations_loop_deletes [OF start, of env pod policy ?vs] run
  have inner: "(r = None \<and> filter is_delete t' = []) \<or> (r \<noteq> None \<and> settled t')" by simp
  show ?case
  proof (cases r)
    case None
    with inner have "filter is_delete t' = []" by simp
    from Cons.IH [OF this] Cons.IH [OF Cons.prems] run None show ?thesis
      by (simp add: Let_def)
  next
    case (Some res)
    with inner have "settled t'" by simp
    with Cons.IH [OF Cons.prems] run Some show ?thesis
      by (simp add: Let_def)
  qed
qed

lemma settled_after:
  assumes "settled t"
  shows "length (filter is_delete t) \<le> 1 \<and> filter evaluates (after_delete t) = []"
proof -
  from assms obtain t0 d u where t: "t = t0 @ d # u" and d: "is_delete d"
      and t0: "filter is_delete t0 = []" and u: "filter evaluates u = []"
    unfolding settled_def by blast
  have "filter is_delete u = []"
    using u by (auto simp: filter_empty_conv evaluates_def)
  then have one: "filter is_delete t = [d]" using t d t0 by simp
  have "dropWhile (\<lambda>c. \<not> is_delete c) t = d # u"
    using t d t0 by (simp add: filter_empty_conv)
  then have "after_delete t = u" by (simp add: after_delete_def)
  with one u show ?thesis by simp
qed

lemma no_delete_after:
  assumes "filter is_delete t = []"
  shows "length (filter is_delete t) \<le> 1 \<and> filter evaluates (after_delete t) = []"
proof -
  have dw: "dropWhile (\<lambda>c. \<not> is_delete c) t = []"
    using assms by (simp add: filter_empty_conv)
  have "after_delete t = []"
    unfolding after_delete_def dw by simp
  with assms show ?thesis by simp
qed

subsection \<open>A pass over a single policy\<close>

lemma single_policy_pass:
  assumes "ShouldApplyToNamespace policy (pod_Namespace pod)" "\<not> IsDisabled policy"
  shows "snd (policies_loop env pod [policy] t) =
           snd (violations_loop env pod policy
                  (checkPodViolations (clock env (length t)) pod policy) (t @ [TimeNow]))"
    and "fst (policies_loop env pod [policy] t) =
           (case fst (violations_loop env pod policy
                  (checkPodViolations (clock env (length t)) pod policy) (t @ [TimeNow])) of
              None \<Rightarrow> Inr () | Some r \<Rightarrow> r)"
  using assms by (simp_all add: Let_def split: prod.splits option.splits)

subsection \<open>Splitting at a separator\<close>

lemma Split_not_Nil: "Split s sep \<noteq> []"
  by (induction s) (auto split: list.splits)

lemma Split_first: "Split s sep ! 0 = takeWhile (\<lambda>c. c \<noteq> sep) s"
proof (induction s)
  case Nil
  show ?case by simp
next
  case (Cons c cs)
  show ?case
  proof (cases "c = sep")
    case True
    then show ?thesis by simp
  next
    case False
    obtain part parts where sp: "Split cs sep = part # parts"
      using Split_not_Nil [of cs sep] by (cases "Split cs sep") auto
    with Cons False show ?thesis by simp
  qed
qed

subsection \<open>The list of policies as the loop sees it\<close>

lemma ups_list_reply:
  "updatePolicyStatus (env\<lparr>list_reply := l\<rparr>) policy w t = updatePolicyStatus env policy w t"
  by (simp add: updatePolicyStatus_def)

lemma violations_loop_list_reply:
  "violations_loop (env\<lparr>list_reply := l\<rparr>) pod policy vs t = violations_loop env pod policy vs t"
  by (induction vs arbitrary: policy t) (simp_all add: ups_list_reply Let_def split: option.splits prod.splits)

lemma policies_loop_list_reply:
  "policies_loop (env\<lparr>list_reply := l\<rparr>) pod ps t = policies_loop env pod ps t"
  by (induction ps arbitrary: t) (simp_all add: violations_loop_list_reply Let_def split: option.splits prod.splits)

lemma policies_loop_skip_disabled:
  "IsDisabled policy \<Longrightarrow>
   policies_loop env pod (before @ policy # rest) t = policies_loop env pod (before @ rest) t"
proof (induction before arbitrary: t)
  case Nil
  then show ?case by simp
next
  case (Cons p before)
  then show ?case by (simp add: Let_def split: prod.splits option.splits)
qed

section \<open>The claims\<close>

text \<open>
  C1. A pod on the host network with no other issue, under a policy in mode Enforce:
  detection reports exactly one event, HOST_NETWORK of severity HIGH with action AUDIT,
  and the pass emits it; yet the pass then issues a delete request for the pod and
  returns success. The event says the pod was audited while the pod is terminated.
\<close>

theorem host_network_pod_deleted_under_enforce:
  "checkPodViolations midnight host_network_pod (policy_with_mode ''Enforce'')
     = [hostNetworkEvent midnight host_network_pod (policy_with_mode ''Enforce'')]
   \<and> EventType (hostNetworkEvent midnight host_network_pod (policy_with_mode ''Enforce''))
       = ''HOST_NETWORK''
   \<and> Severity (hostNetworkEvent midnight host_network_pod (policy_with_mode ''Enforce''))
       = ''HIGH''
   \<and> Action (hostNetworkEvent midnight host_network_pod (policy_with_mode ''Enforce''))
       = ''AUDIT''
   \<and> fst (Reconcile (cluster_of host_network_pod [policy_with_mode ''Enforce'']) web_request)
       = Inr ()
   \<and> filter is_send
        (snd (Reconcile (cluster_of host_network_pod [policy_with_mode ''Enforce'']) web_request))
       = [SendSecurityEvent
            (hostNetworkEvent midnight host_network_pod (policy_with_mode ''Enforce''))]
   \<and> filter is_delete
        (snd (Reconcile (cluster_of host_network_pod [policy_with_mode ''Enforce'']) web_request))
       = [ClientDelete host_network_pod]"
  by (simp add: example_defs model_defs)

text \<open>
  C2, as stated, fails: under an applicable policy in mode Audit, a pod on the host
  network with an init container running as root gives two violations, and the pass
  writes the policy's status twice, not once.
\<close>

theorem status_updated_twice_in_one_pass:
  "ShouldApplyToNamespace (policy_with_mode ''Audit'') (pod_Namespace root_host_network_pod)
   \<and> \<not> IsDisabled (policy_with_mode ''Audit'')
   \<and> length (checkPodViolations midnight root_host_network_pod (policy_with_mode ''Audit'')) = 2
   \<and> length (filter is_status_update
        (snd (Reconcile (cluster_of root_host_network_pod [policy_with_mode ''Audit''])
                web_request))) = 2"
  by (simp add: example_defs model_defs)

text \<open>
  C2, amended. For every applicable policy (namespace matching, not disabled) that a pass
  evaluates, the policy's status is written once for each violation the pass processes
  under it: as many times as violations were detected when the policy does not enforce;
  and, when it enforces and a violation was detected, once if the delete request succeeds
  or reports NotFound and not at all if the delete request fails otherwise.
\<close>

theorem status_updates_per_violation:
  assumes "ShouldApplyToNamespace policy (pod_Namespace pod)" and "\<not> IsDisabled policy"
  shows "length (filter is_status_update (snd (policies_loop env pod [policy] t)))
     = length (filter is_status_update t)
       + (if IsEnforcing policy
          then (if checkPodViolations (clock env (length t)) pod policy = [] then 0
                else (case delete_reply env pod of
                        None \<Rightarrow> 1
                      | Some e \<Rightarrow> if IsNotFound e then 1 else 0))
          else length (checkPodViolations (clock env (length t)) pod policy))"
proof -
  note pass = single_policy_pass(1) [OF assms, of env t]
  show ?thesis
  proof (cases "IsEnforcing policy")
    case True
    show ?thesis
      unfolding pass
      using True enforce_loop_status_updates [OF True, of env pod
          "checkPodViolations (clock env (length t)) pod policy" "t @ [TimeNow]"]
      by (simp add: delete_outcome_def split: option.splits)
  next
    case False
    show ?thesis
      unfolding pass
      using False audit_loop [OF False, of env pod
          "checkPodViolations (clock env (length t)) pod policy" "t @ [TimeNow]"]
      by simp
  qed
qed

theorem status_updates_per_violation_witness:
  "ShouldApplyToNamespace (policy_with_mode ''Audit'') (pod_Namespace root_host_network_pod)
   \<and> \<not> IsDisabled (policy_with_mode ''Audit'')
   \<and> length (filter is_status_update
        (snd (policies_loop (cluster_of root_host_network_pod []) root_host_network_pod
                [policy_with_mode ''Audit''] []))) = 2"
proof -
  have a: "ShouldApplyToNamespace (policy_with_mode ''Audit'') (pod_Namespace root_host_network_pod)"
    by (simp add: example_defs model_defs)
  have b: "\<not> IsDisabled (policy_with_mode ''Audit'')"
    by (simp add: example_defs model_defs)
  have c: "length (checkPodViolations
              (clock (cluster_of root_host_network_pod []) (length ([]::call list)))
              root_host_network_pod (policy_with_mode ''Audit'')) = 2"
    by (simp add: example_defs model_defs)
  have d: "\<not> IsEnforcing (policy_with_mode ''Audit'')"
    by (simp add: example_defs model_defs)
  show ?thesis
    using status_updates_per_violation [OF a b, of "cluster_of root_host_network_pod []" "[]"]
      a b c d
    by (simp del: policies_loop.simps)
qed

text \<open>
  C3, as stated, fails: when every status write is answered with a conflict, a pass under
  an Audit policy over a pod on the host network makes a single status write, logs the
  failure as its last call and returns success; nothing is retried and no error reaches
  the caller.
\<close>

theorem conflicting_status_write_not_retried:
  "fst (Reconcile (conflicting_cluster host_network_pod [policy_with_mode ''Audit''])
          web_request) = Inr ()
   \<and> length (filter is_status_update
        (snd (Reconcile (conflicting_cluster host_network_pod [policy_with_mode ''Audit''])
                web_request))) = 1
   \<and> last (snd (Reconcile (conflicting_cluster host_network_pod [policy_with_mode ''Audit''])
                  web_request))
       = LoggerError Conflict ''Failed to update ShieldPolicy status''"
  by (simp add: example_defs model_defs)

text \<open>
  C3, amended. A status update reads the clock, makes exactly one status write and, when
  the write fails (by a conflict or otherwise), logs the error; the policy it leaves in
  memory does not depend on the answer, and neither does what \<^verbatim>\<open>Reconcile\<close> returns: a
  failed status write is not retried and is not surfaced to the caller.
\<close>

theorem status_write_failure_only_logged:
  "snd (updatePolicyStatus env policy w t) =
     t @ [MetaNow, StatusUpdate (fst (updatePolicyStatus env policy w t))]
       @ (case status_update_reply env (Suc (length t)) (fst (updatePolicyStatus env policy w t)) of
            None \<Rightarrow> []
          | Some e \<Rightarrow> [LoggerError e ''Failed to update ShieldPolicy status''])
   \<and> fst (updatePolicyStatus (env\<lparr>status_update_reply := f\<rparr>) policy w t)
       = fst (updatePolicyStatus env policy w t)
   \<and> fst (Reconcile (env\<lparr>status_update_reply := f\<rparr>) req) = fst (Reconcile env req)"
proof -
  have a: "fst (updatePolicyStatus (env\<lparr>status_update_reply := f\<rparr>) policy w t)
       = fst (updatePolicyStatus env policy w t)"
    by (simp add: updatePolicyStatus_def Let_def split: option.splits)
  have b: "fst (Reconcile (env\<lparr>status_update_reply := f\<rparr>) req) = fst (Reconcile env req)"
    using policies_result_independent [where env = env and f = f]
    by (simp add: Reconcile_def Let_def split: sum.splits)
  show ?thesis using ups_calls [of env policy w t] a b by simp
qed

text \<open>
  C4, as stated, fails: a status update with wasTerminated false changes
  lastEnforcementTime (here from unset to the clock reading).
\<close>

theorem audit_update_sets_lastEnforcementTime:
  "LastEnforcementTime (Status (fst (updatePolicyStatus
       (cluster_of host_network_pod []) (policy_with_mode ''Audit'') False [])))
     \<noteq> LastEnforcementTime (Status (policy_with_mode ''Audit''))"
  by (simp add: example_defs model_defs)

text \<open>
  C4, amended. Every status update increments violationsCount by one (as int64), sets
  phase to Active and sets lastEnforcementTime to the clock reading; terminationsCount is
  incremented and message rewritten exactly when wasTerminated is true, and are unchanged
  otherwise; conditions, observedGeneration, the policy's name and its spec are unchanged.
\<close>

theorem updatePolicyStatus_effect:
  "ViolationsCount (Status (fst (updatePolicyStatus env policy w t)))
     = ViolationsCount (Status policy) + 1
   \<and> Phase (Status (fst (updatePolicyStatus env policy w t))) = ''Active''
   \<and> LastEnforcementTime (Status (fst (updatePolicyStatus env policy w t)))
       = Some (clock env (length t))
   \<and> TerminationsCount (Status (fst (updatePolicyStatus env policy w t)))
       = (if w then TerminationsCount (Status policy) + 1 else TerminationsCount (Status policy))
   \<and> Message (Status (fst (updatePolicyStatus env policy w t)))
       = (if w then ''Last termination at '' @ clock env (length t) else Message (Status policy))
   \<and> Conditions (Status (fst (updatePolicyStatus env policy w t))) = Conditions (Status policy)
   \<and> ObservedGeneration (Status (fst (updatePolicyStatus env policy w t)))
       = ObservedGeneration (Status policy)
   \<and> Name (fst (updatePolicyStatus env policy w t)) = Name policy
   \<and> Spec (fst (updatePolicyStatus env policy w t)) = Spec policy"
  by (simp add: updatePolicyStatus_def Let_def split: option.splits)

text \<open>
  C5, as stated, fails: detection stamps every record with the clock reading of the run,
  so two runs on the same pod and policy one second apart give different sequences.
\<close>

theorem detection_differs_with_clock:
  "checkPodViolations ''2026-01-01T00:00:00Z'' host_network_pod (policy_with_mode ''Audit'')
     \<noteq> checkPodViolations ''2026-01-01T00:00:01Z'' host_network_pod (policy_with_mode ''Audit'')"
  by (simp add: example_defs model_defs)

text \<open>
  C5, amended. Two runs of detection on the same pod and policy give the same records in
  the same order, equal in every field but the timestamp: the second run's sequence is
  the first run's with each timestamp replaced by the second run's clock reading, and
  every record of a run carries that run's clock reading.
\<close>

theorem detection_repeatable_up_to_timestamp:
  "checkPodViolations now2 pod policy
     = map (\<lambda>v. v\<lparr>Timestamp := now2\<rparr>) (checkPodViolations now1 pod policy)
   \<and> map Timestamp (checkPodViolations now1 pod policy)
       = replicate (length (checkPodViolations now1 pod policy)) now1"
proof -
  have restamp: "checkPodViolations now2 pod policy
     = map (\<lambda>v. v\<lparr>Timestamp := now2\<rparr>) (checkPodViolations now1 pod policy)"
    by (rule checkPodViolations_restamp)
  have "checkPodViolations now1 pod policy
     = map (\<lambda>v. v\<lparr>Timestamp := now1\<rparr>) (checkPodViolations now1 pod policy)"
    by (rule checkPodViolations_restamp)
  then have "map Timestamp (checkPodViolations now1 pod policy)
     = map Timestamp (map (\<lambda>v. v\<lparr>Timestamp := now1\<rparr>) (checkPodViolations now1 pod policy))"
    by simp
  also have "\<dots> = replicate (length (checkPodViolations now1 pod policy)) now1"
    by (simp add: map_replicate_const comp_def)
  finally show ?thesis using restamp by simp
qed

text \<open>
  C6. In every reconciliation pass at most one delete request is issued, and after the
  first delete request the pass evaluates nothing further: no detection is run, no event
  is emitted and no second delete is requested.
\<close>

theorem at_most_one_termination:
  "length (filter is_delete (snd (Reconcile env req))) \<le> 1
   \<and> filter evaluates (after_delete (snd (Reconcile env req))) = []"
proof -
  have "filter is_delete (snd (Reconcile env req)) = [] \<or> settled (snd (Reconcile env req))"
  proof -
    have loop: "filter is_delete (snd (policies_loop env pod ps
                  [ClientGet (req_Namespace req) (req_Name req), ClientList])) = []
        \<or> settled (snd (policies_loop env pod ps
                  [ClientGet (req_Namespace req) (req_Name req), ClientList]))" for pod ps
      by (rule policies_loop_deletes) simp
    show ?thesis
      using loop by (auto simp: Reconcile_def Let_def split: sum.splits)
  qed
  then show ?thesis
    using settled_after no_delete_after by blast
qed


text \<open>
  C7. For a request in the namespace kube-system, \<^verbatim>\<open>Reconcile\<close> returns success at once,
  without a single call; \<^verbatim>\<open>ShouldApplyToNamespace\<close> is false at kube-system for every
  policy, whatever its targetNamespaces; and the policy loop applies no policy to a pod
  of that namespace.
\<close>

theorem kube_system_never_evaluated:
  "Reconcile env (req\<lparr>req_Namespace := ''kube-system''\<rparr>) = (Inr (), [])
   \<and> ShouldApplyToNamespace policy ''kube-system'' = False
   \<and> policies_loop env (pod\<lparr>pod_Namespace := ''kube-system''\<rparr>) policies t = (Inr (), t)"
proof -
  have "policies_loop env (pod\<lparr>pod_Namespace := ''kube-system''\<rparr>) policies t = (Inr (), t)"
    by (induction policies) (simp_all add: ShouldApplyToNamespace_def)
  then show ?thesis
    by (simp add: Reconcile_def ShouldApplyToNamespace_def)
qed

text \<open>
  C8. A policy whose enforcementMode is Disabled is skipped entirely: wherever it stands
  in the list of policies, the pass makes the same calls and returns the same result as
  if the policy were not in the list, so nothing is detected, emitted, written or
  deleted under it.
\<close>

theorem disabled_policy_skipped:
  assumes "EnforcementMode (Spec policy) = ''Disabled''"
  shows "IsDisabled policy
   \<and> policies_loop env pod (before @ policy # rest) t = policies_loop env pod (before @ rest) t
   \<and> Reconcile (env\<lparr>list_reply := Inr (before @ policy # rest)\<rparr>) req
       = Reconcile (env\<lparr>list_reply := Inr (before @ rest)\<rparr>) req"
proof -
  have d: "IsDisabled policy" using assms by (simp add: IsDisabled_def)
  note skip = policies_loop_skip_disabled [OF d]
  have "Reconcile (env\<lparr>list_reply := Inr (before @ policy # rest)\<rparr>) req
       = Reconcile (env\<lparr>list_reply := Inr (before @ rest)\<rparr>) req"
    by (simp add: Reconcile_def Let_def policies_loop_list_reply skip split: sum.splits)
  with d skip show ?thesis by simp
qed

theorem disabled_policy_skipped_witness:
  "EnforcementMode (Spec (policy_with_mode ''Disabled'')) = ''Disabled''
   \<and> Reconcile (cluster_of root_host_network_pod
                  [policy_with_mode ''Audit'', policy_with_mode ''Disabled'']) web_request
       = Reconcile (cluster_of root_host_network_pod [policy_with_mode ''Audit'']) web_request"
proof -
  have m: "EnforcementMode (Spec (policy_with_mode ''Disabled'')) = ''Disabled''"
    by (simp add: policy_with_mode_def)
  have c: "(cluster_of root_host_network_pod [])\<lparr>list_reply := Inr l\<rparr>
             = cluster_of root_host_network_pod l" for l
    by (simp add: cluster_of_def)
  show ?thesis
    using disabled_policy_skipped [OF m, of "cluster_of root_host_network_pod []" _
        "[policy_with_mode ''Audit'']" "[]" _ web_request] m
    by (simp add: c)
qed

text \<open>
  C9. Registry extraction follows the rule of the specification on every image reference:
  no slash gives docker.io; otherwise the text before the first slash is the registry when
  it contains a dot or a colon, and docker.io when it does not. In particular
  nginx gives docker.io, myregistry.io/nginx gives myregistry.io, library/nginx gives
  docker.io and localhost:5000/app gives localhost:5000.
\<close>

theorem extractRegistry_meets_spec:
  "extractRegistry img = registry_by_spec img
   \<and> extractRegistry ''nginx'' = ''docker.io''
   \<and> extractRegistry ''myregistry.io/nginx'' = ''myregistry.io''
   \<and> extractRegistry ''library/nginx'' = ''docker.io''
   \<and> extractRegistry ''localhost:5000/app'' = ''localhost:5000''"
proof -
  have general: "extractRegistry i = registry_by_spec i" for i
    by (simp add: extractRegistry_def registry_by_spec_def Contains_def Split_first)
  have "registry_by_spec ''nginx'' = ''docker.io''"
    by (simp add: registry_by_spec_def)
  moreover have "registry_by_spec ''myregistry.io/nginx'' = ''myregistry.io''"
    by (simp add: registry_by_spec_def)
  moreover have "registry_by_spec ''library/nginx'' = ''docker.io''"
    by (simp add: registry_by_spec_def)
  moreover have "registry_by_spec ''localhost:5000/app'' = ''localhost:5000''"
    by (simp add: registry_by_spec_def)
  ultimately show ?thesis
    by (simp only: general simp_thms)
qed




end
